theory Spec2Isabelle
  imports Main "HOL-Library.Word"
begin

unbundle bit_operations_syntax

section \<open>system/hot.c: the reload table and its installer\<close>

text \<open>
  The target is a 32-bit machine: pointers, \<open>size_t\<close> and \<open>uint32_t\<close> are 32-bit words,
  memory is a map from addresses to bytes.  A null pointer is the word 0.
\<close>

type_synonym addr = "32 word"
type_synonym memory = "addr \<Rightarrow> 8 word"

text \<open>
  Modelled from the spec: \<open>struct hot_table\<close> is declared in system/hot.h, which is not
  among the sources.  Its fields are the compile timestamp pointer, the compile directory
  pointer and one function-pointer slot per callback name; the slots are generated from
  the names that system/user_functions/list.h passes to \<open>FUNC\<close>, the list that also
  generates the installer's assignments \<open>tbl->functions.F = F\<close>.  \<open>hot_functions tbl F\<close>
  is the slot of the name \<open>F\<close>.
\<close>

record hot_table =
  compile_timestamp :: addr
  compile_directory :: addr
  hot_functions :: "string \<Rightarrow> addr"

text \<open>
  What the linker fixes for one hot image: the constants \<open>_PROS_COMPILE_TIMESTAMP\<close> and
  \<open>_PROS_COMPILE_DIRECTORY\<close>, the address of every function \<open>F\<close>, the four section
  bounds, and the names that system/user_functions/list.h passes to \<open>FUNC\<close> (that header
  is not among the sources, so the list is a parameter).  \<open>libc_init_array\<close> is the effect
  of \<open>__libc_init_array()\<close>, the image's static constructors, on memory.
\<close>

record hot_image =
  PROS_COMPILE_TIMESTAMP :: addr
  PROS_COMPILE_DIRECTORY :: addr
  fn_addr :: "string \<Rightarrow> addr"
  user_functions_list :: "string list"
  sbss_start :: addr
  sbss_end :: addr
  bss_start :: addr
  bss_end :: addr
  libc_init_array :: "memory \<Rightarrow> memory"

datatype printf_arg = Str string | Ptr addr | Hex "32 word"

datatype hot_event =
    Printf string "printf_arg list"
  | Memset addr "8 word" "32 word"
  | Libc_init_array

text \<open>
  The state \<open>hot.c\<close> works on: the table \<open>__HOT_TABLE\<close> (kept in the cold image, apart
  from the byte memory the hot image owns), that byte memory, and the calls made so far.
\<close>

record hot_state =
  HOT_TABLE :: hot_table
  mem :: memory
  hot_log :: "hot_event list"

definition MAGIC0 :: "32 word" where
  "MAGIC0 = 0x52616368"

definition MAGIC1 :: "32 word" where
  "MAGIC1 = 0x8CEF7310"

text \<open>\<open>struct hot_table __HOT_TABLE = { 0 }\<close>: the table at cold boot.\<close>

definition zero_table :: hot_table where
  "zero_table = \<lparr>compile_timestamp = 0, compile_directory = 0, hot_functions = (\<lambda>F. 0)\<rparr>"

text \<open>
  \<open>memset(p, c, n)\<close>: the \<open>n\<close> bytes at \<open>p\<close>, \<open>p + 1\<close>, ... become \<open>c\<close>; \<open>n\<close> is a
  \<open>size_t\<close>, so a pointer difference passed for it is taken modulo \<open>2 ^ 32\<close>.
\<close>

definition memset :: "addr \<Rightarrow> 8 word \<Rightarrow> 32 word \<Rightarrow> memory \<Rightarrow> memory" where
  "memset p c n m = (\<lambda>a. if a - p < n then c else m a)"

definition do_memset :: "addr \<Rightarrow> 8 word \<Rightarrow> 32 word \<Rightarrow> hot_state \<Rightarrow> hot_state" where
  "do_memset p c n st = st\<lparr>mem := memset p c n (mem st), hot_log := hot_log st @ [Memset p c n]\<rparr>"

text \<open>Lines 36 to 44: the metadata pointers and \<open>tbl->functions.F = F\<close> for every \<open>F\<close>.\<close>

definition set_function :: "hot_image \<Rightarrow> string \<Rightarrow> hot_table \<Rightarrow> hot_table" where
  "set_function img F tbl = tbl\<lparr>hot_functions := (hot_functions tbl)(F := fn_addr img F)\<rparr>"

definition capture_table :: "hot_image \<Rightarrow> hot_state \<Rightarrow> hot_state" where
  "capture_table img st =
     (let st1 = st\<lparr>hot_log := hot_log st @ [Printf ''Hot initializing\<newline>'' []]\<rparr>;
          tbl = (HOT_TABLE st1)\<lparr>compile_timestamp := PROS_COMPILE_TIMESTAMP img\<rparr>;
          tbl = tbl\<lparr>compile_directory := PROS_COMPILE_DIRECTORY img\<rparr>;
          tbl = fold (set_function img) (user_functions_list img) tbl
      in st1\<lparr>HOT_TABLE := tbl\<rparr>)"

text \<open>Lines 46 to 48: the two \<open>memset\<close> calls, with the lengths as the source computes them.\<close>

definition zero_fill :: "hot_image \<Rightarrow> hot_state \<Rightarrow> hot_state" where
  "zero_fill img st =
     (let st1 = do_memset (sbss_start img) 0 (sbss_end img - sbss_start img) st
      in do_memset (bss_start img) 0 (bss_end img - bss_end img) st1)"

definition run_libc_init_array :: "hot_image \<Rightarrow> hot_state \<Rightarrow> hot_state" where
  "run_libc_init_array img st =
     st\<lparr>mem := libc_init_array img (mem st), hot_log := hot_log st @ [Libc_init_array]\<rparr>"

definition install_hot_table :: "hot_image \<Rightarrow> hot_state \<Rightarrow> hot_state" where
  "install_hot_table img st = run_libc_init_array img (zero_fill img (capture_table img st))"

text \<open>
  The table's slots are the names of a list: a name outside it is no member of the
  struct, and its slot reads as null.
\<close>

definition slots_of :: "string list \<Rightarrow> hot_table \<Rightarrow> bool" where
  "slots_of names tbl = (\<forall>F. F \<notin> set names \<longrightarrow> hot_functions tbl F = 0)"

text \<open>
  \<open>invoke_install_hot_table\<close>: \<open>m0\<close> and \<open>m1\<close> are the words read at \<open>MAGIC_ADDR[0]\<close>
  and \<open>MAGIC_ADDR[1]\<close>; \<open>fp\<close> is the pointer \<open>install_hot_table\<close>, \<open>tp\<close> the pointer
  \<open>HOT_TABLE\<close> and \<open>sz\<close> the value of \<open>sizeof(*HOT_TABLE)\<close>.  The \<open>memset\<close> of line 58
  clears the table, which is not in the byte memory of the hot image.
\<close>

definition invoke_install_hot_table ::
  "hot_image \<Rightarrow> addr \<Rightarrow> addr \<Rightarrow> 32 word \<Rightarrow> 32 word \<Rightarrow> 32 word \<Rightarrow> hot_state \<Rightarrow>
   hot_state" where
  "invoke_install_hot_table img fp tp sz m0 m1 st =
     (let st1 = st\<lparr>hot_log := hot_log st @
            [Printf ''%s %p %p %x %x\<newline>''
               [Str ''invoke_install_hot_table'', Ptr fp, Ptr tp, Hex m0, Hex m1]]\<rparr>
      in if m0 = MAGIC0 \<and> m1 = MAGIC1 then install_hot_table img st1
         else st1\<lparr>HOT_TABLE := zero_table, hot_log := hot_log st1 @ [Memset tp 0 sz]\<rparr>)"

section \<open>system/system_daemon.c: the competition daemon\<close>

text \<open>
  The three status masks come from pros/misc.h, which is not among the sources: they are
  parameters of the model.
\<close>

record comp_flags =
  COMPETITION_DISABLED :: "32 word"
  COMPETITION_AUTONOMOUS :: "32 word"
  COMPETITION_CONNECTED :: "32 word"

datatype state_task = E_OPCONTROL_TASK | E_AUTON_TASK | E_DISABLED_TASK | E_COMP_INIT_TASK

datatype task_fn_t =
    Opcontrol_task
  | Autonomous_task
  | Disabled_task
  | Competition_initialize_task
  | Initialize_task

fun task_names :: "state_task \<Rightarrow> string" where
  "task_names E_OPCONTROL_TASK = ''User Operator Control (PROS)''"
| "task_names E_AUTON_TASK = ''User Autonomous (PROS)''"
| "task_names E_DISABLED_TASK = ''User Disabled (PROS)''"
| "task_names E_COMP_INIT_TASK = ''User Comp. Init. (PROS)''"

fun task_fns :: "state_task \<Rightarrow> task_fn_t" where
  "task_fns E_OPCONTROL_TASK = Opcontrol_task"
| "task_fns E_AUTON_TASK = Autonomous_task"
| "task_fns E_DISABLED_TASK = Disabled_task"
| "task_fns E_COMP_INIT_TASK = Competition_initialize_task"

datatype task_state_e_t =
    E_TASK_STATE_RUNNING
  | E_TASK_STATE_READY
  | E_TASK_STATE_BLOCKED
  | E_TASK_STATE_SUSPENDED
  | E_TASK_STATE_DELETED
  | E_TASK_STATE_INVALID

text \<open>The calls the daemon makes that have an effect outside it, in the order made.\<close>

datatype event =
    Port_mutex_take_all
  | Ser_output_flush
  | Rtos_suspend_all
  | VexBackgroundProcessing
  | Rtos_resume_all
  | Vdml_background_processing
  | Port_mutex_give_all
  | Task_delay "32 word"
  | Task_notify_take bool
  | Task_create nat task_fn_t string
  | Task_delete nat
  | Task_delay_until "32 word"

text \<open>
  The daemon's variables and the scheduler's view of the mode tasks.  A \<open>task_t\<close> is
  modelled as the number of the task's incarnation: \<open>tasks ! h\<close> is the scheduler state
  of the \<open>h\<close>-th task created on \<open>competition_task_stack\<close>, so that an old and a new mode
  task are told apart although they reuse one static buffer.
\<close>

record daemon =
  status :: "32 word"
  time :: "32 word"
  competition_task :: nat
  tasks :: "task_state_e_t list"
  trace :: "event list"

definition do_background_operations :: "daemon \<Rightarrow> daemon" where
  "do_background_operations st =
     st\<lparr>trace := trace st @
       [Port_mutex_take_all, Ser_output_flush, Rtos_suspend_all, VexBackgroundProcessing,
        Rtos_resume_all, Vdml_background_processing, Port_mutex_give_all]\<rparr>"

definition task_get_state :: "nat \<Rightarrow> daemon \<Rightarrow> task_state_e_t" where
  "task_get_state h st = (if h < length (tasks st) then tasks st ! h else E_TASK_STATE_INVALID)"

definition task_delete :: "nat \<Rightarrow> daemon \<Rightarrow> daemon" where
  "task_delete h st =
     st\<lparr>tasks := (tasks st)[h := E_TASK_STATE_DELETED], trace := trace st @ [Task_delete h]\<rparr>"

definition task_create_static :: "task_fn_t \<Rightarrow> string \<Rightarrow> daemon \<Rightarrow> nat \<times> daemon" where
  "task_create_static fn name st =
     (length (tasks st),
      st\<lparr>tasks := tasks st @ [E_TASK_STATE_READY],
         trace := trace st @ [Task_create (length (tasks st)) fn name]\<rparr>)"

text \<open>\<open>task_delay_until(&time, inc)\<close> sleeps to the deadline \<open>time + inc\<close> and stores it.\<close>

definition task_delay_until :: "32 word \<Rightarrow> daemon \<Rightarrow> daemon" where
  "task_delay_until inc st =
     st\<lparr>time := time st + inc, trace := trace st @ [Task_delay_until (time st + inc)]\<rparr>"

text \<open>Lines 91 and 99 to 106: the state the daemon switches to.\<close>

definition choose_state :: "comp_flags \<Rightarrow> 32 word \<Rightarrow> 32 word \<Rightarrow> state_task" where
  "choose_state fl old_status new_status =
     (if (new_status XOR old_status) AND COMPETITION_CONNECTED fl \<noteq> 0 \<and>
         new_status AND (COMPETITION_DISABLED fl OR COMPETITION_CONNECTED fl) =
           (COMPETITION_DISABLED fl OR COMPETITION_CONNECTED fl)
      then E_COMP_INIT_TASK
      else if new_status AND COMPETITION_DISABLED fl \<noteq> 0 then E_DISABLED_TASK
      else if new_status AND COMPETITION_AUTONOMOUS fl \<noteq> 0 then E_AUTON_TASK
      else E_OPCONTROL_TASK)"

text \<open>Lines 108 to 115: the outgoing task is deleted in three of its six states.\<close>

definition delete_outgoing :: "daemon \<Rightarrow> daemon" where
  "delete_outgoing st =
     (let task_state = task_get_state (competition_task st) st
      in if task_state = E_TASK_STATE_READY \<or> task_state = E_TASK_STATE_BLOCKED \<or>
            task_state = E_TASK_STATE_SUSPENDED
         then task_delete (competition_task st) st
         else st)"

text \<open>Lines 117 and 118: the replacement is created and stored in \<open>competition_task\<close>.\<close>

definition create_replacement :: "state_task \<Rightarrow> daemon \<Rightarrow> daemon" where
  "create_replacement state st =
     (let (h, st1) = task_create_static (task_fns state) (task_names state) st
      in st1\<lparr>competition_task := h\<rparr>)"

text \<open>
  One pass through the body of \<open>while (1)\<close>.  \<open>r1\<close> is what \<open>competition_get_status()\<close>
  returns in the comparison of line 87 and \<open>r2\<close> what it returns in the assignment of
  line 90 (the source calls it twice).  The \<open>continue\<close> of line 94 leaves the body
  before \<open>task_delay_until\<close>.
\<close>

definition daemon_iteration :: "comp_flags \<Rightarrow> 32 word \<Rightarrow> 32 word \<Rightarrow> daemon \<Rightarrow> daemon" where
  "daemon_iteration fl r1 r2 st0 =
     (let st = do_background_operations st0
      in if status st \<noteq> r1 then
           (let old_status = status st;
                st1 = st\<lparr>status := r2\<rparr>
            in if status st1 AND COMPETITION_DISABLED fl \<noteq> 0 \<and>
                  old_status AND COMPETITION_DISABLED fl \<noteq> 0
               then st1
               else task_delay_until 2
                      (create_replacement (choose_state fl old_status (status st1))
                         (delete_outgoing st1)))
         else task_delay_until 2 st)"

text \<open>The loop, run for as many passes as there are pairs of status readings.\<close>

fun daemon_loop :: "comp_flags \<Rightarrow> (32 word \<times> 32 word) list \<Rightarrow> daemon \<Rightarrow> daemon" where
  "daemon_loop fl [] st = st"
| "daemon_loop fl ((r1, r2) # rs) st = daemon_loop fl rs (daemon_iteration fl r1 r2 st)"

text \<open>
  Lines 80 to 83: \<open>task_notify_take\<close> times out \<open>n\<close> times, each followed by the
  background operations, and then returns the notification.
\<close>

primrec wait_initialize :: "nat \<Rightarrow> daemon \<Rightarrow> daemon" where
  "wait_initialize 0 st = st\<lparr>trace := trace st @ [Task_notify_take True]\<rparr>"
| "wait_initialize (Suc n) st =
     wait_initialize n (do_background_operations (st\<lparr>trace := trace st @ [Task_notify_take False]\<rparr>))"

text \<open>
  Lines 60 to 83: the start of \<open>_system_daemon_task\<close>; \<open>m0\<close> and \<open>m1\<close> are the two
  values of \<open>millis()\<close>.  No mode task exists before it.
\<close>

definition daemon_bootstrap :: "32 word \<Rightarrow> 32 word \<Rightarrow> nat \<Rightarrow> daemon" where
  "daemon_bootstrap m0 m1 n =
     (let st = \<lparr>status = push_bit 8 1, time = m0, competition_task = 0, tasks = [],
                trace = [Port_mutex_take_all, Task_delay 2, Port_mutex_give_all]\<rparr>;
          (h, st1) = task_create_static Initialize_task ''User Initialization (PROS)'' st;
          st2 = st1\<lparr>competition_task := h\<rparr>;
          st3 = st2\<lparr>time := m1\<rparr>
      in wait_initialize n st3)"

text \<open>
  The priority rule in the specification's words, to compare \<open>choose_state\<close> with: a
  flag is set in a status word when the word and the flag's mask share a bit.
\<close>

definition flag_set :: "32 word \<Rightarrow> 32 word \<Rightarrow> bool" where
  "flag_set m s = (s AND m \<noteq> 0)"

definition priority_state :: "comp_flags \<Rightarrow> 32 word \<Rightarrow> 32 word \<Rightarrow> state_task" where
  "priority_state fl old new =
     (if flag_set (COMPETITION_CONNECTED fl) old \<noteq> flag_set (COMPETITION_CONNECTED fl) new \<and>
         flag_set (COMPETITION_DISABLED fl) new \<and> flag_set (COMPETITION_CONNECTED fl) new
      then E_COMP_INIT_TASK
      else if flag_set (COMPETITION_DISABLED fl) new then E_DISABLED_TASK
      else if flag_set (COMPETITION_AUTONOMOUS fl) new then E_AUTON_TASK
      else E_OPCONTROL_TASK)"

text \<open>A mask that names one flag: exactly one of the 32 bits.\<close>

definition single_bit :: "32 word \<Rightarrow> bool" where
  "single_bit m = (\<exists>n \<in> {0..<32}. m = push_bit n 1)"

text \<open>The events a pass appends to the trace.\<close>

definition new_events :: "daemon \<Rightarrow> daemon \<Rightarrow> event list" where
  "new_events st st' = drop (length (trace st)) (trace st')"

definition background_events :: "event list" where
  "background_events =
     [Port_mutex_take_all, Ser_output_flush, Rtos_suspend_all, VexBackgroundProcessing,
      Rtos_resume_all, Vdml_background_processing, Port_mutex_give_all]"

definition is_task_event :: "event \<Rightarrow> bool" where
  "is_task_event e = (case e of Task_create h f n \<Rightarrow> True | Task_delete h \<Rightarrow> True | _ \<Rightarrow> False)"

definition is_task_create :: "event \<Rightarrow> bool" where
  "is_task_create e = (case e of Task_create h f n \<Rightarrow> True | _ \<Rightarrow> False)"

definition is_delay_until :: "event \<Rightarrow> bool" where
  "is_delay_until e = (case e of Task_delay_until t \<Rightarrow> True | _ \<Rightarrow> False)"

text \<open>
  A mode task is live while the scheduler still holds it.  Between two steps of the
  daemon the scheduler may move a mode task between its states or end it; it brings no
  ended task back, and while the daemon itself executes no other task is the running one
  (lines 110 and 111 of the source).
\<close>

definition is_live :: "task_state_e_t \<Rightarrow> bool" where
  "is_live s =
     (s = E_TASK_STATE_RUNNING \<or> s = E_TASK_STATE_READY \<or> s = E_TASK_STATE_BLOCKED \<or>
      s = E_TASK_STATE_SUSPENDED)"

definition live_tasks :: "daemon \<Rightarrow> nat" where
  "live_tasks st = length (filter is_live (tasks st))"

definition env_move :: "task_state_e_t \<Rightarrow> task_state_e_t \<Rightarrow> bool" where
  "env_move s s' = (s' \<noteq> E_TASK_STATE_RUNNING \<and> (is_live s' \<longrightarrow> is_live s))"

inductive reachable :: "comp_flags \<Rightarrow> daemon \<Rightarrow> bool" for fl :: comp_flags where
  boot: "reachable fl (daemon_bootstrap m0 m1 n)"
| pass: "reachable fl st \<Longrightarrow> reachable fl (daemon_iteration fl r1 r2 st)"
| sched: "reachable fl st \<Longrightarrow> list_all2 env_move (tasks st) ts \<Longrightarrow> reachable fl (st\<lparr>tasks := ts\<rparr>)"

definition slot_inv :: "daemon \<Rightarrow> bool" where
  "slot_inv st =
     (tasks st \<noteq> [] \<and> competition_task st = length (tasks st) - 1 \<and>
      (\<forall>s \<in> set (butlast (tasks st)). \<not> is_live s) \<and>
      E_TASK_STATE_RUNNING \<notin> set (tasks st))"

subsection \<open>Entry points\<close>

text \<open>
  \<open>cold F\<close> is the address the cold image's linker gives the symbol \<open>F\<close> (the weak
  default of lines 148 to 162, or a strong definition linked in its place).
  \<open>HOT_TABLE->initialize\<close> and \<open>HOT_TABLE->cpp_initialize\<close> read the table's slots of
  these names.
\<close>

record user_ptrs =
  user_initialize :: addr
  user_cpp_initialize :: addr

definition setup_user_functions :: "(string \<Rightarrow> addr) \<Rightarrow> hot_table \<Rightarrow> user_ptrs" where
  "setup_user_functions cold tbl =
     \<lparr>user_initialize =
        (if hot_functions tbl ''initialize'' \<noteq> 0 then hot_functions tbl ''initialize''
         else cold ''initialize''),
      user_cpp_initialize =
        (if hot_functions tbl ''cpp_initialize'' \<noteq> 0 then hot_functions tbl ''cpp_initialize''
         else cold ''cpp_initialize'')\<rparr>"

datatype call = Call addr | Task_notify_system_daemon

text \<open>Lines 173 to 189: what each task function calls.\<close>

fun task_body :: "(string \<Rightarrow> addr) \<Rightarrow> user_ptrs \<Rightarrow> task_fn_t \<Rightarrow> call list" where
  "task_body cold g Competition_initialize_task = [Call (cold ''competition_initialize'')]"
| "task_body cold g Initialize_task = [Call (user_initialize g), Task_notify_system_daemon]"
| "task_body cold g Autonomous_task = [Call (cold ''autonomous'')]"
| "task_body cold g Opcontrol_task = [Call (cold ''opcontrol'')]"
| "task_body cold g Disabled_task = [Call (cold ''disabled'')]"

text \<open>The resolution rule in the specification's words, for a callback \<open>F\<close>.\<close>

definition resolved :: "(string \<Rightarrow> addr) \<Rightarrow> hot_table \<Rightarrow> string \<Rightarrow> addr" where
  "resolved cold tbl F = (if hot_functions tbl F \<noteq> 0 then hot_functions tbl F else cold F)"

section \<open>devices/vdml_imu.c: the inertial sensor's accessors\<close>

text \<open>
  A device is named by its port index \<open>port - 1\<close> (an \<open>int\<close>, since the \<open>uint8_t\<close> port
  is promoted before the subtraction).  The record holds \<open>errno\<close>, which port mutexes
  are held, and the calls made to the vendor library and to \<open>port_mutex_give\<close>.
\<close>

datatype vdml_call =
    VexDeviceImuStatusGet int
  | VexDeviceImuReset int
  | VexDeviceImuHeadingGet int
  | VexDeviceImuDegreesGet int
  | VexDeviceImuQuaternionGet int
  | VexDeviceImuAttitudeGet int
  | VexDeviceImuRawGyroGet int
  | VexDeviceImuRawAccelGet int
  | Port_mutex_give int

record vdml =
  errno :: int
  port_mutex :: "int \<Rightarrow> bool"
  vdml_calls :: "vdml_call list"

record 'f quaternion_s_t =
  q_a :: 'f
  q_b :: 'f
  q_c :: 'f
  q_d :: 'f

record 'f attitude_s_t =
  pitch :: 'f
  roll :: 'f
  yaw :: 'f

record 'f imu_s_t =
  raw_x :: 'f
  raw_y :: 'f
  raw_z :: 'f
  raw_w :: 'f

text \<open>
  What the file takes from headers that are not among the sources, as parameters: the
  three port-claiming macros of vdml/vdml.h (each gives whether the claim succeeded and
  the state it leaves), the constants of errno.h, pros/error.h and pros/imu.h, and what
  the vendor library reads from the device at a port index.  \<open>'f\<close> stands for \<open>double\<close>.
\<close>

record 'f imu_env =
  claim_port_i :: "int \<Rightarrow> vdml \<Rightarrow> bool \<times> vdml"
  claim_port_f :: "int \<Rightarrow> vdml \<Rightarrow> bool \<times> vdml"
  claim_port_try :: "int \<Rightarrow> vdml \<Rightarrow> bool \<times> vdml"
  EAGAIN :: int
  PROS_ERR :: "32 word"
  PROS_ERR_F :: 'f
  E_IMU_STATUS_CALIBRATING :: "32 word"
  E_IMU_STATUS_ERROR :: "8 word"
  imu_status_word :: "int \<Rightarrow> 32 word"
  imu_heading :: "int \<Rightarrow> 'f"
  imu_degrees :: "int \<Rightarrow> 'f"
  imu_quaternion :: "int \<Rightarrow> 'f quaternion_s_t"
  imu_attitude :: "int \<Rightarrow> 'f attitude_s_t"
  imu_raw_gyro :: "int \<Rightarrow> 'f imu_s_t"
  imu_raw_accel :: "int \<Rightarrow> 'f imu_s_t"

definition vex :: "vdml_call \<Rightarrow> vdml \<Rightarrow> vdml" where
  "vex c st = st\<lparr>vdml_calls := vdml_calls st @ [c]\<rparr>"

text \<open>
  Modelled from the spec: the macro \<open>return_port(port, rtn)\<close> of vdml/vdml.h is not among
  the sources.  It releases the port, giving its mutex back with \<open>port_mutex_give(port)\<close>,
  and returns \<open>rtn\<close>.
\<close>

definition return_port :: "int \<Rightarrow> 'a \<Rightarrow> vdml \<Rightarrow> 'a \<times> vdml" where
  "return_port port rtn st =
     (rtn, st\<lparr>port_mutex := (port_mutex st)(port := False),
              vdml_calls := vdml_calls st @ [Port_mutex_give port]\<rparr>)"

text \<open>
  Lines 19 to 23, the macro \<open>ERROR_IMU_STILL_CALIBRATING(port, device, err_return)\<close>:
  \<open>Inl\<close> is the early return, \<open>Inr\<close> the state with which the function goes on.
\<close>

definition ERROR_IMU_STILL_CALIBRATING ::
  "'f imu_env \<Rightarrow> 8 word \<Rightarrow> int \<Rightarrow> 'a \<Rightarrow> vdml \<Rightarrow> ('a \<times> vdml) + vdml" where
  "ERROR_IMU_STILL_CALIBRATING env port device err_return st =
     (let st1 = vex (VexDeviceImuStatusGet device) st
      in if imu_status_word env device AND E_IMU_STATUS_CALIBRATING env \<noteq> 0
         then Inl (return_port (uint port - 1) err_return (st1\<lparr>errno := EAGAIN env\<rparr>))
         else Inr st1)"

definition imu_reset :: "'f imu_env \<Rightarrow> 8 word \<Rightarrow> vdml \<Rightarrow> 32 word \<times> vdml" where
  "imu_reset env port st =
     (let (ok, st1) = claim_port_i env (uint port - 1) st
      in if \<not> ok then (PROS_ERR env, st1)
         else case ERROR_IMU_STILL_CALIBRATING env port (uint port - 1) (PROS_ERR env) st1 of
                Inl r \<Rightarrow> r
              | Inr st2 \<Rightarrow>
                  return_port (uint port - 1) 1 (vex (VexDeviceImuReset (uint port - 1)) st2))"

definition imu_get_heading :: "'f imu_env \<Rightarrow> 8 word \<Rightarrow> vdml \<Rightarrow> 'f \<times> vdml" where
  "imu_get_heading env port st =
     (let (ok, st1) = claim_port_f env (uint port - 1) st
      in if \<not> ok then (PROS_ERR_F env, st1)
         else case ERROR_IMU_STILL_CALIBRATING env port (uint port - 1) (PROS_ERR_F env) st1 of
                Inl r \<Rightarrow> r
              | Inr st2 \<Rightarrow>
                  (let rtn = imu_heading env (uint port - 1);
                       st3 = vex (VexDeviceImuHeadingGet (uint port - 1)) st2
                   in return_port (uint port - 1) rtn st3))"

definition imu_get_degrees :: "'f imu_env \<Rightarrow> 8 word \<Rightarrow> vdml \<Rightarrow> 'f \<times> vdml" where
  "imu_get_degrees env port st =
     (let (ok, st1) = claim_port_f env (uint port - 1) st
      in if \<not> ok then (PROS_ERR_F env, st1)
         else case ERROR_IMU_STILL_CALIBRATING env port (uint port - 1) (PROS_ERR_F env) st1 of
                Inl r \<Rightarrow> r
              | Inr st2 \<Rightarrow>
                  (let rtn = imu_degrees env (uint port - 1);
                       st3 = vex (VexDeviceImuDegreesGet (uint port - 1)) st2
                   in return_port (uint port - 1) rtn st3))"

definition QUATERNION_ERR_INIT :: "'f imu_env \<Rightarrow> 'f quaternion_s_t" where
  "QUATERNION_ERR_INIT env =
     \<lparr>q_a = PROS_ERR_F env, q_b = PROS_ERR_F env, q_c = PROS_ERR_F env, q_d = PROS_ERR_F env\<rparr>"

definition imu_get_quaternion :: "'f imu_env \<Rightarrow> 8 word \<Rightarrow> vdml \<Rightarrow> 'f quaternion_s_t \<times> vdml" where
  "imu_get_quaternion env port st =
     (let rtn = QUATERNION_ERR_INIT env;
          (ok, st1) = claim_port_try env (uint port - 1) st
      in if \<not> ok then (rtn, st1)
         else let device = uint port - 1
              in case ERROR_IMU_STILL_CALIBRATING env port device rtn st1 of
                   Inl r \<Rightarrow> r
                 | Inr st2 \<Rightarrow>
                     (let rtn = imu_quaternion env device;
                          st3 = vex (VexDeviceImuQuaternionGet device) st2
                      in return_port (uint port - 1) rtn st3))"

definition ATTITUDE_ERR_INIT :: "'f imu_env \<Rightarrow> 'f attitude_s_t" where
  "ATTITUDE_ERR_INIT env = \<lparr>pitch = PROS_ERR_F env, roll = PROS_ERR_F env, yaw = PROS_ERR_F env\<rparr>"

definition imu_get_attitude :: "'f imu_env \<Rightarrow> 8 word \<Rightarrow> vdml \<Rightarrow> 'f attitude_s_t \<times> vdml" where
  "imu_get_attitude env port st =
     (let rtn = ATTITUDE_ERR_INIT env;
          (ok, st1) = claim_port_try env (uint port - 1) st
      in if \<not> ok then (rtn, st1)
         else let device = uint port - 1
              in case ERROR_IMU_STILL_CALIBRATING env port device rtn st1 of
                   Inl r \<Rightarrow> r
                 | Inr st2 \<Rightarrow>
                     (let rtn = imu_attitude env device;
                          st3 = vex (VexDeviceImuAttitudeGet device) st2
                      in return_port (uint port - 1) rtn st3))"

definition RAW_IMU_ERR_INIT :: "'f imu_env \<Rightarrow> 'f imu_s_t" where
  "RAW_IMU_ERR_INIT env =
     \<lparr>raw_x = PROS_ERR_F env, raw_y = PROS_ERR_F env, raw_z = PROS_ERR_F env,
      raw_w = PROS_ERR_F env\<rparr>"

definition imu_get_raw_gyro :: "'f imu_env \<Rightarrow> 8 word \<Rightarrow> vdml \<Rightarrow> 'f imu_s_t \<times> vdml" where
  "imu_get_raw_gyro env port st =
     (let rtn = RAW_IMU_ERR_INIT env;
          (ok, st1) = claim_port_try env (uint port - 1) st
      in if \<not> ok then (rtn, st1)
         else let device = uint port - 1
              in case ERROR_IMU_STILL_CALIBRATING env port device rtn st1 of
                   Inl r \<Rightarrow> r
                 | Inr st2 \<Rightarrow>
                     (let rtn = imu_raw_gyro env device;
                          st3 = vex (VexDeviceImuRawGyroGet device) st2
                      in return_port (uint port - 1) rtn st3))"

definition imu_get_raw_accel :: "'f imu_env \<Rightarrow> 8 word \<Rightarrow> vdml \<Rightarrow> 'f imu_s_t \<times> vdml" where
  "imu_get_raw_accel env port st =
     (let rtn = RAW_IMU_ERR_INIT env;
          (ok, st1) = claim_port_try env (uint port - 1) st
      in if \<not> ok then (rtn, st1)
         else let device = uint port - 1
              in case ERROR_IMU_STILL_CALIBRATING env port device rtn st1 of
                   Inl r \<Rightarrow> r
                 | Inr st2 \<Rightarrow>
                     (let rtn = imu_raw_accel env device;
                          st3 = vex (VexDeviceImuRawAccelGet device) st2
                      in return_port (uint port - 1) rtn st3))"

text \<open>
  The result type \<open>imu_status_e_t\<close> is an enum of one byte on the target (its largest
  value is \<open>E_IMU_STATUS_ERROR\<close>): the 32-bit status word is cut to its low byte when
  line 111 assigns it.
\<close>

definition imu_get_status :: "'f imu_env \<Rightarrow> 8 word \<Rightarrow> vdml \<Rightarrow> 8 word \<times> vdml" where
  "imu_get_status env port st =
     (let rtn = E_IMU_STATUS_ERROR env;
          (ok, st1) = claim_port_try env (uint port - 1) st
      in if \<not> ok then (rtn, st1)
         else let device = uint port - 1
              in case ERROR_IMU_STILL_CALIBRATING env port device (E_IMU_STATUS_ERROR env) st1 of
                   Inl r \<Rightarrow> r
                 | Inr st2 \<Rightarrow>
                     (let rtn = ucast (imu_status_word env device);
                          st3 = vex (VexDeviceImuStatusGet device) st2
                      in return_port (uint port - 1) rtn st3))"

section \<open>Concrete inputs\<close>

text \<open>One layout of the three flags, and a daemon whose second mode task is in the slot.\<close>

definition example_flags :: comp_flags where
  "example_flags =
     \<lparr>COMPETITION_DISABLED = 1, COMPETITION_AUTONOMOUS = 2, COMPETITION_CONNECTED = 4\<rparr>"

definition example_daemon :: "32 word \<Rightarrow> task_state_e_t \<Rightarrow> daemon" where
  "example_daemon s ts =
     \<lparr>status = s, time = 100, competition_task = 1, tasks = [E_TASK_STATE_DELETED, ts],
      trace = []\<rparr>"

text \<open>
  A hot image with the five callbacks and the alternate-linkage initializer, a 16-byte
  sbss and a 240-byte bss after it, whose constructors leave memory alone; and a state
  whose table and memory hold what an earlier program left there.
\<close>

definition example_fn_addr :: "string \<Rightarrow> addr" where
  "example_fn_addr F =
     (if F = ''autonomous'' then 0x07801000
      else if F = ''initialize'' then 0x07801040
      else if F = ''opcontrol'' then 0x07801080
      else if F = ''disabled'' then 0x078010C0
      else if F = ''competition_initialize'' then 0x07801100
      else if F = ''cpp_initialize'' then 0x07801140
      else 0)"

definition example_image :: hot_image where
  "example_image =
     \<lparr>PROS_COMPILE_TIMESTAMP = 0x07800010, PROS_COMPILE_DIRECTORY = 0x07800030,
      fn_addr = example_fn_addr,
      user_functions_list =
        [''autonomous'', ''initialize'', ''opcontrol'', ''disabled'', ''competition_initialize'',
         ''cpp_initialize''],
      sbss_start = 0x07900000, sbss_end = 0x07900010,
      bss_start = 0x07900010, bss_end = 0x07900100,
      libc_init_array = (\<lambda>m. m)\<rparr>"

definition stale_state :: hot_state where
  "stale_state =
     \<lparr>HOT_TABLE = \<lparr>compile_timestamp = 0x03800010, compile_directory = 0x03800030,
                    hot_functions =
                      (\<lambda>F. if F \<in> set (user_functions_list example_image) then 0x03801000
                           else 0)\<rparr>,
      mem = (\<lambda>a. 0xFF), hot_log = []\<rparr>"

text \<open>
  The cold image's own addresses of the callbacks, and the table as the installer leaves
  it for the example image.
\<close>

definition example_cold :: "string \<Rightarrow> addr" where
  "example_cold F =
     (if F = ''autonomous'' then 0x03801000
      else if F = ''initialize'' then 0x03801040
      else if F = ''opcontrol'' then 0x03801080
      else if F = ''disabled'' then 0x038010C0
      else if F = ''competition_initialize'' then 0x03801100
      else if F = ''cpp_initialize'' then 0x03801140
      else 0)"

definition installed_table :: hot_table where
  "installed_table =
     HOT_TABLE (invoke_install_hot_table example_image 0x03800400 0x03800800 32 MAGIC0 MAGIC1
        stale_state)"

text \<open>
  An inertial sensor on port 1 (port index 0) that is calibrating.  For the example a
  \<open>double\<close> is the infinity that \<open>PROS_ERR_F\<close> names or a whole number.
\<close>

datatype double = Infinity | Finite int

definition example_claim :: "int \<Rightarrow> vdml \<Rightarrow> bool \<times> vdml" where
  "example_claim p st =
     (if p = 0 then (True, st\<lparr>port_mutex := (port_mutex st)(p := True)\<rparr>)
      else (False, st\<lparr>errno := 6\<rparr>))"

definition example_env :: "double imu_env" where
  "example_env =
     \<lparr>claim_port_i = example_claim, claim_port_f = example_claim, claim_port_try = example_claim,
      EAGAIN = 11, PROS_ERR = 0x7FFFFFFF, PROS_ERR_F = Infinity,
      E_IMU_STATUS_CALIBRATING = 0x01, E_IMU_STATUS_ERROR = 0xFF,
      imu_status_word = (\<lambda>d. 0x01),
      imu_heading = (\<lambda>d. Finite 90), imu_degrees = (\<lambda>d. Finite 450),
      imu_quaternion = (\<lambda>d. \<lparr>q_a = Finite 1, q_b = Finite 0, q_c = Finite 0, q_d = Finite 0\<rparr>),
      imu_attitude = (\<lambda>d. \<lparr>pitch = Finite 0, roll = Finite 0, yaw = Finite 90\<rparr>),
      imu_raw_gyro =
        (\<lambda>d. \<lparr>raw_x = Finite 0, raw_y = Finite 0, raw_z = Finite 0, raw_w = Finite 0\<rparr>),
      imu_raw_accel =
        (\<lambda>d. \<lparr>raw_x = Finite 0, raw_y = Finite 0, raw_z = Finite 1, raw_w = Finite 0\<rparr>)\<rparr>"

definition idle_vdml :: vdml where
  "idle_vdml = \<lparr>errno = 0, port_mutex = (\<lambda>p. False), vdml_calls = []\<rparr>"

section \<open>Theorems\<close>

lemma memset_zero_length: "memset p c 0 m = m"
  by (simp add: memset_def)

subsection \<open>The reload table\<close>

lemma fold_set_function:
  "hot_functions (fold (set_function img) Fs tbl) =
     (\<lambda>F. if F \<in> set Fs then fn_addr img F else hot_functions tbl F)"
  by (induction Fs arbitrary: tbl) (auto simp: set_function_def fun_eq_iff)

lemma fold_set_function_metadata:
  "compile_timestamp (fold (set_function img) Fs tbl) = compile_timestamp tbl"
  "compile_directory (fold (set_function img) Fs tbl) = compile_directory tbl"
  by (induction Fs arbitrary: tbl) (auto simp: set_function_def)

lemma HOT_TABLE_install:
  "HOT_TABLE (install_hot_table img st) =
     \<lparr>compile_timestamp = PROS_COMPILE_TIMESTAMP img,
      compile_directory = PROS_COMPILE_DIRECTORY img,
      hot_functions = (\<lambda>F. if F \<in> set (user_functions_list img) then fn_addr img F
                           else hot_functions (HOT_TABLE st) F)\<rparr>"
  by (rule hot_table.equality)
     (simp_all add: install_hot_table_def run_libc_init_array_def zero_fill_def do_memset_def
        capture_table_def Let_def fold_set_function fold_set_function_metadata fun_eq_iff)

lemma slots_of_zero_table: "slots_of names zero_table"
  by (simp add: slots_of_def zero_table_def)

lemma slots_of_install:
  "slots_of (user_functions_list img) (HOT_TABLE st) \<Longrightarrow>
   slots_of (user_functions_list img) (HOT_TABLE (install_hot_table img st))"
  by (simp add: slots_of_def HOT_TABLE_install)




lemma bss_memset_no_effect:
  "mem (zero_fill img st) = memset (sbss_start img) 0 (sbss_end img - sbss_start img) (mem st)"
  by (simp add: zero_fill_def do_memset_def memset_zero_length)

lemma sbss_zeroed:
  assumes "sbss_start img \<le> a" and "a < sbss_end img"
  shows "mem (zero_fill img st) a = 0"
proof -
  from assms have "a - sbss_start img < sbss_end img - sbss_start img"
    by (simp add: word_less_nat_alt word_le_nat_alt unat_sub)
  then show ?thesis by (simp add: bss_memset_no_effect memset_def)
qed

lemma bss_untouched:
  "\<not> a - sbss_start img < sbss_end img - sbss_start img \<Longrightarrow> mem (zero_fill img st) a = mem st a"
  by (simp add: bss_memset_no_effect memset_def)

text \<open>
  Claim C4, at a failing input.  The bss of the example image is the 240 bytes from
  0x07900010 and memory holds 0xFF everywhere.  In the state in which
  \<open>__libc_init_array\<close> is called, the first and the last byte of the bss are still
  0xFF (the second \<open>memset\<close> has length \<open>__bss_end - __bss_end\<close>), while the sbss byte
  at 0x07900000 is 0.
\<close>

theorem bss_left_unzeroed:
  "bss_start example_image = 0x07900010 \<and> bss_end example_image = 0x07900100 \<and>
   mem stale_state 0x07900010 = 0xFF \<and>
   mem (zero_fill example_image (capture_table example_image stale_state)) 0x07900010 = 0xFF \<and>
   mem (zero_fill example_image (capture_table example_image stale_state)) 0x079000FF = 0xFF \<and>
   mem (zero_fill example_image (capture_table example_image stale_state)) 0x07900000 = 0 \<and>
   mem (install_hot_table example_image stale_state) 0x07900010 = 0xFF"
  by (simp add: install_hot_table_def run_libc_init_array_def bss_memset_no_effect memset_def
      capture_table_def example_image_def stale_state_def)

subsection \<open>The status flags\<close>

lemma bit_single: "n < 32 \<Longrightarrow> bit (2 ^ n :: 32 word) k \<longleftrightarrow> k = n"
  by (auto simp: bit_exp_iff)

lemma single_bit_and: "single_bit m \<Longrightarrow> s AND m = 0 \<or> s AND m = m"
proof -
  assume "single_bit m"
  then obtain n where n: "n < 32" "m = push_bit n 1" by (auto simp: single_bit_def)
  show ?thesis
  proof (cases "bit s n")
    case True
    with n have "s AND m = m"
      by (intro bit_eqI) (auto simp: bit_and_iff bit_single)
    then show ?thesis by simp
  next
    case False
    with n have "s AND m = 0"
      by (intro bit_eqI) (auto simp: bit_and_iff bit_single)
    then show ?thesis by simp
  qed
qed

lemma single_bit_nz: "single_bit m \<Longrightarrow> m \<noteq> 0"
proof -
  assume "single_bit m"
  then obtain n where n: "n < 32" "m = push_bit n 1" by (auto simp: single_bit_def)
  from n have "bit m n" by (simp add: bit_single)
  then show ?thesis by auto
qed

lemma flag_set_eq: "single_bit m \<Longrightarrow> flag_set m s \<longleftrightarrow> s AND m = m"
  using single_bit_and [of m s] single_bit_nz [of m] by (auto simp: flag_set_def)

lemma both_flags:
  assumes "single_bit d" "single_bit c"
  shows "s AND (d OR c) = (d OR c) \<longleftrightarrow> flag_set d s \<and> flag_set c s"
proof
  assume h: "s AND (d OR c) = (d OR c)"
  have "s AND d = (s AND (d OR c)) AND d" by (auto simp add: bit_eq_iff bit_and_iff bit_or_iff)
  also have "\<dots> = d" unfolding h by (auto simp add: bit_eq_iff bit_and_iff bit_or_iff)
  finally have d: "s AND d = d" .
  have "s AND c = (s AND (d OR c)) AND c" by (auto simp add: bit_eq_iff bit_and_iff bit_or_iff)
  also have "\<dots> = c" unfolding h by (auto simp add: bit_eq_iff bit_and_iff bit_or_iff)
  finally have c: "s AND c = c" .
  from d c assms show "flag_set d s \<and> flag_set c s" by (simp add: flag_set_eq)
next
  assume "flag_set d s \<and> flag_set c s"
  with assms have "s AND d = d" "s AND c = c" by (simp_all add: flag_set_eq)
  then show "s AND (d OR c) = (d OR c)" by (simp add: bit.conj_disj_distrib)
qed

lemma flag_differs:
  assumes "single_bit c"
  shows "(new XOR old) AND c \<noteq> 0 \<longleftrightarrow> flag_set c old \<noteq> flag_set c new"
proof -
  have x: "(new XOR old) AND c = (new AND c) XOR (old AND c)"
    by (auto simp add: bit_eq_iff bit_and_iff bit_xor_iff)
  from single_bit_and [OF assms, of new] single_bit_and [OF assms, of old] single_bit_nz [OF assms]
  show ?thesis unfolding x flag_set_def by auto
qed

lemma choose_state_priority:
  "single_bit (COMPETITION_DISABLED fl) \<Longrightarrow> single_bit (COMPETITION_CONNECTED fl) \<Longrightarrow>
   choose_state fl old new = priority_state fl old new"
  by (simp add: choose_state_def priority_state_def both_flags flag_differs)
     (simp add: flag_set_def)

subsection \<open>One pass of the daemon\<close>

lemma trace_do_background_operations:
  "trace (do_background_operations st) = trace st @ background_events"
  by (simp add: do_background_operations_def background_events_def)

lemma trace_delete_outgoing:
  "trace (delete_outgoing st) = trace st @
     (if task_get_state (competition_task st) st \<in>
           {E_TASK_STATE_READY, E_TASK_STATE_BLOCKED, E_TASK_STATE_SUSPENDED}
      then [Task_delete (competition_task st)] else [])"
  by (simp add: delete_outgoing_def task_delete_def Let_def)

lemma trace_create_replacement:
  "trace (create_replacement s st) =
     trace st @ [Task_create (length (tasks st)) (task_fns s) (task_names s)]"
  by (simp add: create_replacement_def task_create_static_def)

lemma trace_task_delay_until:
  "trace (task_delay_until n st) = trace st @ [Task_delay_until (time st + n)]"
  by (simp add: task_delay_until_def)

lemma frame_do_background_operations:
  "status (do_background_operations st) = status st"
  "time (do_background_operations st) = time st"
  "competition_task (do_background_operations st) = competition_task st"
  "tasks (do_background_operations st) = tasks st"
  by (simp_all add: do_background_operations_def)

lemma frame_delete_outgoing:
  "status (delete_outgoing st) = status st"
  "time (delete_outgoing st) = time st"
  "competition_task (delete_outgoing st) = competition_task st"
  "length (tasks (delete_outgoing st)) = length (tasks st)"
  by (simp_all add: delete_outgoing_def task_delete_def Let_def)

lemma frame_create_replacement:
  "status (create_replacement s st) = status st"
  "time (create_replacement s st) = time st"
  "competition_task (create_replacement s st) = length (tasks st)"
  "tasks (create_replacement s st) = tasks st @ [E_TASK_STATE_READY]"
  by (simp_all add: create_replacement_def task_create_static_def)

lemma frame_task_delay_until:
  "status (task_delay_until n st) = status st"
  "competition_task (task_delay_until n st) = competition_task st"
  "tasks (task_delay_until n st) = tasks st"
  by (simp_all add: task_delay_until_def)

lemma iteration_unchanged:
  "status st = r1 \<Longrightarrow>
   daemon_iteration fl r1 r2 st = task_delay_until 2 (do_background_operations st)"
  by (simp add: daemon_iteration_def Let_def frame_do_background_operations)

lemma iteration_suppressed:
  "status st \<noteq> r1 \<Longrightarrow> r2 AND COMPETITION_DISABLED fl \<noteq> 0 \<Longrightarrow>
   status st AND COMPETITION_DISABLED fl \<noteq> 0 \<Longrightarrow>
   daemon_iteration fl r1 r2 st = (do_background_operations st)\<lparr>status := r2\<rparr>"
  by (simp add: daemon_iteration_def Let_def frame_do_background_operations)

lemma iteration_transition:
  "status st \<noteq> r1 \<Longrightarrow>
   \<not> (r2 AND COMPETITION_DISABLED fl \<noteq> 0 \<and> status st AND COMPETITION_DISABLED fl \<noteq> 0) \<Longrightarrow>
   daemon_iteration fl r1 r2 st =
     task_delay_until 2
       (create_replacement (choose_state fl (status st) r2)
          (delete_outgoing ((do_background_operations st)\<lparr>status := r2\<rparr>)))"
  by (auto simp add: daemon_iteration_def Let_def frame_do_background_operations)

lemma transition_events:
  assumes "status st \<noteq> r1"
    and "\<not> (r2 AND COMPETITION_DISABLED fl \<noteq> 0 \<and> status st AND COMPETITION_DISABLED fl \<noteq> 0)"
  shows "new_events st (daemon_iteration fl r1 r2 st) =
     background_events @
     (if task_get_state (competition_task st) st \<in>
           {E_TASK_STATE_READY, E_TASK_STATE_BLOCKED, E_TASK_STATE_SUSPENDED}
      then [Task_delete (competition_task st)] else []) @
     [Task_create (length (tasks st)) (task_fns (choose_state fl (status st) r2))
        (task_names (choose_state fl (status st) r2)),
      Task_delay_until (time st + 2)]"
proof -
  let ?s1 = "(do_background_operations st)\<lparr>status := r2\<rparr>"
  have g: "\<And>h. task_get_state h ?s1 = task_get_state h st"
    by (simp add: task_get_state_def frame_do_background_operations)
  have t1: "trace ?s1 = trace st @ background_events"
    by (simp add: trace_do_background_operations)
  show ?thesis
    unfolding iteration_transition [OF assms] new_events_def
    by (simp add: trace_task_delay_until trace_create_replacement trace_delete_outgoing g t1
        frame_create_replacement frame_delete_outgoing frame_do_background_operations)
qed

lemma single_bit_1: "single_bit 1"
  unfolding single_bit_def by (rule bexI [of _ 0]) simp_all

lemma single_bit_2: "single_bit 2"
  unfolding single_bit_def by (rule bexI [of _ 1]) simp_all

lemma single_bit_4: "single_bit 4"
  unfolding single_bit_def by (rule bexI [of _ 2]) simp_all

text \<open>
  Claim C1.  When a pass of the daemon sees a changed status (the first reading differs
  from the stored word) and the DISABLED flag is not set in both the old word and the
  new one, the state the source computes is the one the priority rule names (COMP_INIT,
  else DISABLED, else AUTONOMOUS, else OPCONTROL), and the one task the pass creates is
  that state's task function under that state's name.  Each of the DISABLED and
  CONNECTED masks is one bit.
\<close>

theorem next_state_by_priority:
  assumes "single_bit (COMPETITION_DISABLED fl)" and "single_bit (COMPETITION_CONNECTED fl)"
    and "status st \<noteq> r1"
    and "\<not> (flag_set (COMPETITION_DISABLED fl) (status st) \<and> flag_set (COMPETITION_DISABLED fl) new)"
  shows "choose_state fl (status st) new = priority_state fl (status st) new \<and>
         filter is_task_create (new_events st (daemon_iteration fl r1 new st)) =
           [Task_create (length (tasks st)) (task_fns (priority_state fl (status st) new))
              (task_names (priority_state fl (status st) new))]"
proof -
  have c: "choose_state fl (status st) new = priority_state fl (status st) new"
    using assms(1,2) by (rule choose_state_priority)
  have n: "\<not> (new AND COMPETITION_DISABLED fl \<noteq> 0 \<and> status st AND COMPETITION_DISABLED fl \<noteq> 0)"
    using assms(4) by (auto simp: flag_set_def)
  have "filter is_task_create (new_events st (daemon_iteration fl r1 new st)) =
           [Task_create (length (tasks st)) (task_fns (choose_state fl (status st) new))
              (task_names (choose_state fl (status st) new))]"
    unfolding transition_events [OF assms(3) n]
    by (simp add: is_task_create_def background_events_def)
  with c show ?thesis by simp
qed

theorem next_state_by_priority_witness:
  "single_bit (COMPETITION_DISABLED example_flags) \<and>
   single_bit (COMPETITION_CONNECTED example_flags) \<and>
   status (example_daemon 2 E_TASK_STATE_READY) \<noteq> 0 \<and>
   \<not> (flag_set (COMPETITION_DISABLED example_flags) (status (example_daemon 2 E_TASK_STATE_READY)) \<and>
      flag_set (COMPETITION_DISABLED example_flags) 0) \<and>
   choose_state example_flags 2 0 = E_OPCONTROL_TASK \<and>
   filter is_task_create
     (new_events (example_daemon 2 E_TASK_STATE_READY)
        (daemon_iteration example_flags 0 0 (example_daemon 2 E_TASK_STATE_READY))) =
     [Task_create 2 Opcontrol_task ''User Operator Control (PROS)'']"
proof -
  have h1: "single_bit (COMPETITION_DISABLED example_flags)"
    and h2: "single_bit (COMPETITION_CONNECTED example_flags)"
    by (simp_all add: example_flags_def single_bit_1 single_bit_4)
  have h3: "status (example_daemon 2 E_TASK_STATE_READY) \<noteq> 0"
    by (simp add: example_daemon_def)
  have h4: "\<not> (flag_set (COMPETITION_DISABLED example_flags) (status (example_daemon 2 E_TASK_STATE_READY)) \<and>
      flag_set (COMPETITION_DISABLED example_flags) 0)"
    by (simp add: flag_set_def)
  have p: "priority_state example_flags 2 0 = E_OPCONTROL_TASK"
    by (simp add: priority_state_def flag_set_def example_flags_def)
  from next_state_by_priority [OF h1 h2 h3 h4] h1 h2 h3 h4 p show ?thesis
    by (simp add: example_daemon_def)
qed

text \<open>
  Claim C2.  When the DISABLED flag is set in the status word before a pass and in the
  status word after it, the pass makes no transition, whatever else changed: the task
  in the slot is the same, the scheduler's states are the same, and the pass neither
  deletes nor creates a task.
\<close>

theorem disabled_held_no_transition:
  assumes "flag_set (COMPETITION_DISABLED fl) (status st)"
    and "flag_set (COMPETITION_DISABLED fl) (status (daemon_iteration fl r1 r2 st))"
  shows "competition_task (daemon_iteration fl r1 r2 st) = competition_task st \<and>
         tasks (daemon_iteration fl r1 r2 st) = tasks st \<and>
         filter is_task_event (new_events st (daemon_iteration fl r1 r2 st)) = []"
proof (cases "status st = r1")
  case True
  show ?thesis
    unfolding iteration_unchanged [OF True] new_events_def
    by (simp add: frame_task_delay_until frame_do_background_operations trace_task_delay_until
        trace_do_background_operations background_events_def is_task_event_def)
next
  case False
  have s: "status (daemon_iteration fl r1 r2 st) = r2"
    using False
    by (simp add: daemon_iteration_def Let_def frame_do_background_operations
        frame_task_delay_until frame_create_replacement frame_delete_outgoing)
  from assms s have d: "r2 AND COMPETITION_DISABLED fl \<noteq> 0"
    "status st AND COMPETITION_DISABLED fl \<noteq> 0"
    by (simp_all add: flag_set_def)
  show ?thesis
    unfolding iteration_suppressed [OF False d] new_events_def
    by (simp add: frame_do_background_operations trace_do_background_operations
        background_events_def is_task_event_def)
qed

theorem disabled_held_no_transition_witness:
  "flag_set (COMPETITION_DISABLED example_flags) (status (example_daemon 1 E_TASK_STATE_READY)) \<and>
   status (daemon_iteration example_flags 3 3 (example_daemon 1 E_TASK_STATE_READY)) = 3 \<and>
   flag_set (COMPETITION_DISABLED example_flags) 3 \<and>
   competition_task (daemon_iteration example_flags 3 3 (example_daemon 1 E_TASK_STATE_READY)) = 1 \<and>
   tasks (daemon_iteration example_flags 3 3 (example_daemon 1 E_TASK_STATE_READY)) =
     [E_TASK_STATE_DELETED, E_TASK_STATE_READY] \<and>
   filter is_task_event
     (new_events (example_daemon 1 E_TASK_STATE_READY)
        (daemon_iteration example_flags 3 3 (example_daemon 1 E_TASK_STATE_READY))) = []"
proof -
  have h1: "flag_set (COMPETITION_DISABLED example_flags) (status (example_daemon 1 E_TASK_STATE_READY))"
    by (simp add: flag_set_def example_flags_def example_daemon_def)
  have s: "status (daemon_iteration example_flags 3 3 (example_daemon 1 E_TASK_STATE_READY)) = 3"
    by (simp add: daemon_iteration_def Let_def do_background_operations_def example_flags_def
        example_daemon_def)
  have f: "flag_set (COMPETITION_DISABLED example_flags) 3"
    by (simp add: flag_set_def example_flags_def)
  have h2: "flag_set (COMPETITION_DISABLED example_flags)
              (status (daemon_iteration example_flags 3 3 (example_daemon 1 E_TASK_STATE_READY)))"
    unfolding s by (rule f)
  from disabled_held_no_transition [OF h1 h2] h1 s f show ?thesis
    by (simp add: example_daemon_def)
qed

text \<open>
  Claim C7.  On a transition the events of the pass are the background operations, then
  \<open>task_delete\<close> of the outgoing task exactly when its state is ready, blocked or
  suspended, then \<open>task_create_static\<close> of the replacement, then the sleep.  So a task
  is passed to \<open>task_delete\<close> if and only if it is the outgoing one in one of these
  three states (never deleted, invalid or running), and the deletion precedes the
  creation.
\<close>

theorem delete_only_schedulable_before_create:
  assumes "status st \<noteq> r1"
    and "\<not> (flag_set (COMPETITION_DISABLED fl) r2 \<and> flag_set (COMPETITION_DISABLED fl) (status st))"
  shows "new_events st (daemon_iteration fl r1 r2 st) =
           background_events @
           (if task_get_state (competition_task st) st \<in>
                 {E_TASK_STATE_READY, E_TASK_STATE_BLOCKED, E_TASK_STATE_SUSPENDED}
            then [Task_delete (competition_task st)] else []) @
           [Task_create (length (tasks st)) (task_fns (choose_state fl (status st) r2))
              (task_names (choose_state fl (status st) r2)),
            Task_delay_until (time st + 2)] \<and>
         (Task_delete h \<in> set (new_events st (daemon_iteration fl r1 r2 st)) \<longleftrightarrow>
            h = competition_task st \<and>
            task_get_state (competition_task st) st \<in>
              {E_TASK_STATE_READY, E_TASK_STATE_BLOCKED, E_TASK_STATE_SUSPENDED})"
proof -
  have n: "\<not> (r2 AND COMPETITION_DISABLED fl \<noteq> 0 \<and> status st AND COMPETITION_DISABLED fl \<noteq> 0)"
    using assms(2) by (simp add: flag_set_def)
  show ?thesis
    unfolding transition_events [OF assms(1) n]
    by (auto simp: background_events_def)
qed

theorem delete_only_schedulable_before_create_witness:
  "status (example_daemon 0 E_TASK_STATE_READY) \<noteq> 2 \<and>
   \<not> (flag_set (COMPETITION_DISABLED example_flags) 2 \<and>
      flag_set (COMPETITION_DISABLED example_flags) (status (example_daemon 0 E_TASK_STATE_READY))) \<and>
   new_events (example_daemon 0 E_TASK_STATE_READY)
     (daemon_iteration example_flags 2 2 (example_daemon 0 E_TASK_STATE_READY)) =
     background_events @
     [Task_delete 1, Task_create 2 Autonomous_task ''User Autonomous (PROS)'',
      Task_delay_until 102] \<and>
   new_events (example_daemon 0 E_TASK_STATE_DELETED)
     (daemon_iteration example_flags 2 2 (example_daemon 0 E_TASK_STATE_DELETED)) =
     background_events @
     [Task_create 2 Autonomous_task ''User Autonomous (PROS)'', Task_delay_until 102]"
proof -
  have h1: "status (example_daemon 0 ts) \<noteq> 2" for ts
    by (simp add: example_daemon_def)
  have h2: "\<not> (flag_set (COMPETITION_DISABLED example_flags) 2 \<and>
      flag_set (COMPETITION_DISABLED example_flags) (status (example_daemon 0 ts)))" for ts
    by (simp add: flag_set_def example_flags_def)
  have c: "choose_state example_flags 0 2 = E_AUTON_TASK"
    by (simp add: choose_state_def example_flags_def)
  have g: "task_get_state 1 (example_daemon 0 ts) = ts" for ts
    by (simp add: task_get_state_def example_daemon_def)
  from delete_only_schedulable_before_create [OF h1 h2, of E_TASK_STATE_READY 1]
       delete_only_schedulable_before_create [OF h1 h2, of E_TASK_STATE_DELETED 1]
       h1 [of E_TASK_STATE_READY] h2 [of E_TASK_STATE_READY] c g
  show ?thesis by (simp add: example_daemon_def)
qed

text \<open>
  Claim C9.  When the status read in a pass equals the stored one, the pass is the
  background operations followed by the sleep and nothing else: the status, the task in
  the slot and the scheduler's states are unchanged, and no task is deleted or created.
\<close>

theorem unchanged_status_skips_transition:
  assumes "status st = r1"
  shows "daemon_iteration fl r1 r2 st = task_delay_until 2 (do_background_operations st) \<and>
         status (daemon_iteration fl r1 r2 st) = status st \<and>
         competition_task (daemon_iteration fl r1 r2 st) = competition_task st \<and>
         tasks (daemon_iteration fl r1 r2 st) = tasks st \<and>
         new_events st (daemon_iteration fl r1 r2 st) =
           background_events @ [Task_delay_until (time st + 2)] \<and>
         filter is_task_event (new_events st (daemon_iteration fl r1 r2 st)) = []"
  unfolding iteration_unchanged [OF assms] new_events_def
  by (simp add: frame_task_delay_until frame_do_background_operations trace_task_delay_until
      trace_do_background_operations background_events_def is_task_event_def)

theorem unchanged_status_skips_transition_witness:
  "status (example_daemon 2 E_TASK_STATE_READY) = 2 \<and>
   status (daemon_iteration example_flags 2 2 (example_daemon 2 E_TASK_STATE_READY)) = 2 \<and>
   competition_task (daemon_iteration example_flags 2 2 (example_daemon 2 E_TASK_STATE_READY)) = 1 \<and>
   tasks (daemon_iteration example_flags 2 2 (example_daemon 2 E_TASK_STATE_READY)) =
     [E_TASK_STATE_DELETED, E_TASK_STATE_READY] \<and>
   new_events (example_daemon 2 E_TASK_STATE_READY)
     (daemon_iteration example_flags 2 2 (example_daemon 2 E_TASK_STATE_READY)) =
     background_events @ [Task_delay_until 102]"
proof -
  have h: "status (example_daemon 2 E_TASK_STATE_READY) = 2"
    by (simp add: example_daemon_def)
  note t = unchanged_status_skips_transition [OF h, of example_flags 2]
  from t [THEN conjunct2] h show ?thesis
    by (simp add: example_daemon_def)
qed

lemma pass_runs_background_once:
  "length (filter (\<lambda>e. e = VexBackgroundProcessing)
     (new_events st (daemon_iteration fl r1 r2 st))) = 1"
proof (cases "status st = r1")
  case True
  show ?thesis
    unfolding iteration_unchanged [OF True] new_events_def
    by (simp add: trace_task_delay_until trace_do_background_operations background_events_def)
next
  case False
  show ?thesis
  proof (cases "r2 AND COMPETITION_DISABLED fl \<noteq> 0 \<and> status st AND COMPETITION_DISABLED fl \<noteq> 0")
    case True
    then have d: "r2 AND COMPETITION_DISABLED fl \<noteq> 0" "status st AND COMPETITION_DISABLED fl \<noteq> 0"
      by simp_all
    show ?thesis
      unfolding iteration_suppressed [OF False d] new_events_def
      by (simp add: trace_do_background_operations background_events_def)
  next
    case n: False
    show ?thesis
      unfolding transition_events [OF False n]
      by (simp add: background_events_def)
  qed
qed

lemma pass_sleeps_unless_suppressed:
  "filter is_delay_until (new_events st (daemon_iteration fl r1 r2 st)) =
     (if status st \<noteq> r1 \<and> r2 AND COMPETITION_DISABLED fl \<noteq> 0 \<and>
         status st AND COMPETITION_DISABLED fl \<noteq> 0
      then [] else [Task_delay_until (time st + 2)])"
proof (cases "status st = r1")
  case True
  show ?thesis
    unfolding iteration_unchanged [OF True] new_events_def using True
    by (simp add: trace_task_delay_until trace_do_background_operations background_events_def
        is_delay_until_def frame_do_background_operations)
next
  case False
  show ?thesis
  proof (cases "r2 AND COMPETITION_DISABLED fl \<noteq> 0 \<and> status st AND COMPETITION_DISABLED fl \<noteq> 0")
    case True
    then have d: "r2 AND COMPETITION_DISABLED fl \<noteq> 0" "status st AND COMPETITION_DISABLED fl \<noteq> 0"
      by simp_all
    show ?thesis
      unfolding iteration_suppressed [OF False d] new_events_def using False d
      by (simp add: trace_do_background_operations background_events_def is_delay_until_def)
  next
    case n: False
    show ?thesis
      unfolding transition_events [OF False n] using False n
      by (auto simp add: background_events_def is_delay_until_def)
  qed
qed

lemma example_suppressed:
  "daemon_iteration example_flags 3 3 (example_daemon 1 E_TASK_STATE_READY) =
     (do_background_operations (example_daemon 1 E_TASK_STATE_READY))\<lparr>status := 3\<rparr>"
  by (rule iteration_suppressed) (simp_all add: example_daemon_def example_flags_def)

text \<open>
  Claim C6, at a failing input.  The stored status is DISABLED and both readings are
  DISABLED|AUTONOMOUS: the pass leaves through the \<open>continue\<close> of line 94, so it makes no
  \<open>task_delay_until\<close> and \<open>time\<close> keeps its value.  Two passes with these readings run
  the background operations twice and sleep once.
\<close>

theorem suppressed_pass_skips_delay:
  "filter is_delay_until
     (new_events (example_daemon 1 E_TASK_STATE_READY)
        (daemon_iteration example_flags 3 3 (example_daemon 1 E_TASK_STATE_READY))) = [] \<and>
   time (daemon_iteration example_flags 3 3 (example_daemon 1 E_TASK_STATE_READY)) =
     time (example_daemon 1 E_TASK_STATE_READY) \<and>
   length (filter (\<lambda>e. e = VexBackgroundProcessing)
     (trace (daemon_loop example_flags [(3, 3), (3, 3)] (example_daemon 1 E_TASK_STATE_READY)))) = 2 \<and>
   length (filter is_delay_until
     (trace (daemon_loop example_flags [(3, 3), (3, 3)] (example_daemon 1 E_TASK_STATE_READY)))) = 1"
proof -
  let ?st = "example_daemon 1 E_TASK_STATE_READY"
  let ?s1 = "(do_background_operations ?st)\<lparr>status := 3\<rparr>"
  have two: "daemon_iteration example_flags 3 3 ?s1 = task_delay_until 2 (do_background_operations ?s1)"
    by (rule iteration_unchanged) simp
  have l: "daemon_loop example_flags [(3, 3), (3, 3)] ?st =
             task_delay_until 2 (do_background_operations ?s1)"
    by (simp add: example_suppressed two)
  show ?thesis
    unfolding l example_suppressed new_events_def
    by (simp add: trace_task_delay_until trace_do_background_operations
        frame_do_background_operations background_events_def is_delay_until_def example_daemon_def)
qed

subsection \<open>The mode task slot\<close>

lemma slot_inv_snoc:
  "slot_inv st \<longleftrightarrow>
     (\<exists>xs x. tasks st = xs @ [x] \<and> competition_task st = length xs \<and>
        (\<forall>s \<in> set xs. \<not> is_live s) \<and> E_TASK_STATE_RUNNING \<notin> set xs \<and> x \<noteq> E_TASK_STATE_RUNNING)"
proof (cases "tasks st" rule: rev_cases)
  case Nil
  then show ?thesis by (simp add: slot_inv_def)
next
  case (snoc xs x)
  then show ?thesis by (auto simp: slot_inv_def)
qed

lemma frame_wait_initialize:
  "tasks (wait_initialize n st) = tasks st \<and>
   competition_task (wait_initialize n st) = competition_task st"
  by (induction n arbitrary: st) (simp_all add: frame_do_background_operations)

lemma slot_inv_bootstrap: "slot_inv (daemon_bootstrap m0 m1 n)"
  by (simp add: slot_inv_def daemon_bootstrap_def task_create_static_def frame_wait_initialize)

lemma slot_inv_frame:
  "tasks st' = tasks st \<Longrightarrow> competition_task st' = competition_task st \<Longrightarrow>
   slot_inv st' = slot_inv st"
  by (simp add: slot_inv_def)

lemma not_live_dead: "\<not> is_live E_TASK_STATE_DELETED" "\<not> is_live E_TASK_STATE_INVALID"
  by (simp_all add: is_live_def)

lemma delete_outgoing_none_live:
  assumes "slot_inv st"
  shows "\<forall>s \<in> set (tasks (delete_outgoing st)). \<not> is_live s"
proof -
  from assms obtain xs x where t: "tasks st = xs @ [x]" and c: "competition_task st = length xs"
    and d: "\<forall>s \<in> set xs. \<not> is_live s" and r: "x \<noteq> E_TASK_STATE_RUNNING"
    unfolding slot_inv_snoc by blast
  have g: "task_get_state (length xs) st = x"
    by (simp add: task_get_state_def t)
  show ?thesis
  proof (cases "x = E_TASK_STATE_READY \<or> x = E_TASK_STATE_BLOCKED \<or> x = E_TASK_STATE_SUSPENDED")
    case True
    then have "tasks (delete_outgoing st) = xs @ [E_TASK_STATE_DELETED]"
      by (simp add: delete_outgoing_def c g Let_def task_delete_def t)
    with d show ?thesis by (simp add: not_live_dead)
  next
    case False
    then have "tasks (delete_outgoing st) = xs @ [x]"
      by (simp add: delete_outgoing_def c g Let_def t)
    moreover from False r have "\<not> is_live x" by (simp add: is_live_def)
    ultimately show ?thesis using d by simp
  qed
qed

lemma slot_inv_transition:
  assumes "slot_inv st"
  shows "slot_inv (create_replacement s (delete_outgoing st))"
proof -
  have "\<forall>s \<in> set (tasks (delete_outgoing st)). \<not> is_live s"
    using assms by (rule delete_outgoing_none_live)
  moreover have "\<forall>s \<in> set (tasks (delete_outgoing st)). s \<noteq> E_TASK_STATE_RUNNING"
    using calculation by (auto simp: is_live_def)
  ultimately show ?thesis
    by (auto simp: slot_inv_def frame_create_replacement)
qed

lemma slot_inv_iteration:
  assumes "slot_inv st"
  shows "slot_inv (daemon_iteration fl r1 r2 st)"
proof -
  let ?s1 = "(do_background_operations st)\<lparr>status := r2\<rparr>"
  have s1: "slot_inv ?s1"
    using assms by (simp add: slot_inv_def frame_do_background_operations)
  have bg: "slot_inv (do_background_operations st)"
    using assms by (simp add: slot_inv_def frame_do_background_operations)
  have dl: "slot_inv (task_delay_until n x) = slot_inv x" for n x
    by (simp add: slot_inv_def frame_task_delay_until)
  show ?thesis
    using s1 bg slot_inv_transition [OF s1]
    by (simp add: daemon_iteration_def Let_def dl frame_do_background_operations)
qed

lemma slot_inv_sched:
  assumes "slot_inv st" and "list_all2 env_move (tasks st) ts"
  shows "slot_inv (st\<lparr>tasks := ts\<rparr>)"
proof -
  from assms(1) obtain xs x where t: "tasks st = xs @ [x]" and c: "competition_task st = length xs"
    and d: "\<forall>s \<in> set xs. \<not> is_live s"
    unfolding slot_inv_snoc by blast
  from assms(2) t obtain ys y where ts: "ts = ys @ [y]" and a: "list_all2 env_move xs ys"
    and m: "env_move x y"
    by (auto simp: list_all2_append1 list_all2_Cons1)
  from a have len: "length ys = length xs" by (simp add: list_all2_lengthD)
  have dead: "\<forall>s \<in> set ys. \<not> is_live s"
  proof
    fix s assume "s \<in> set ys"
    then obtain i where i: "i < length ys" "s = ys ! i" by (auto simp: in_set_conv_nth)
    with a len have "env_move (xs ! i) s" by (simp add: list_all2_nthD2)
    moreover from i len d have "\<not> is_live (xs ! i)" by simp
    ultimately show "\<not> is_live s" by (auto simp: env_move_def)
  qed
  have run: "E_TASK_STATE_RUNNING \<notin> set ys"
    using dead by (auto simp: is_live_def)
  from m have "y \<noteq> E_TASK_STATE_RUNNING" by (simp add: env_move_def)
  with ts c len dead run show ?thesis
    unfolding slot_inv_snoc by simp
qed

lemma reachable_slot_inv: "reachable fl st \<Longrightarrow> slot_inv st"
  by (induction rule: reachable.induct)
     (simp_all add: slot_inv_bootstrap slot_inv_iteration slot_inv_sched)

lemma slot_inv_live:
  assumes "slot_inv st"
  shows "live_tasks st \<le> 1"
    and "\<forall>h < length (tasks st). is_live (tasks st ! h) \<longrightarrow> h = competition_task st"
proof -
  from assms obtain xs x where t: "tasks st = xs @ [x]" and c: "competition_task st = length xs"
    and d: "\<forall>s \<in> set xs. \<not> is_live s"
    unfolding slot_inv_snoc by blast
  from d have f: "filter is_live xs = []" by (simp add: filter_empty_conv)
  show "live_tasks st \<le> 1" by (simp add: live_tasks_def t f)
  show "\<forall>h < length (tasks st). is_live (tasks st ! h) \<longrightarrow> h = competition_task st"
  proof (intro allI impI)
    fix h assume h: "h < length (tasks st)" "is_live (tasks st ! h)"
    show "h = competition_task st"
    proof (rule ccontr)
      assume "h \<noteq> competition_task st"
      with h(1) t c have "h < length xs" by simp
      with h(2) t d show False by (simp add: nth_append)
    qed
  qed
qed

text \<open>
  Claim C8.  In every state the daemon reaches (after the bootstrap, after any pass,
  after any move of the scheduler) at most one mode task is live, and a live one is the
  task in \<open>competition_task\<close>.  Inside a transition that starts there, no mode task is
  live after the deletion step and exactly one is live after the creation step.
\<close>

theorem at_most_one_live_mode_task:
  assumes "reachable fl st"
  shows "live_tasks st \<le> 1 \<and>
         (\<forall>h < length (tasks st). is_live (tasks st ! h) \<longrightarrow> h = competition_task st) \<and>
         live_tasks (delete_outgoing ((do_background_operations st)\<lparr>status := r2\<rparr>)) = 0 \<and>
         live_tasks (create_replacement s
            (delete_outgoing ((do_background_operations st)\<lparr>status := r2\<rparr>))) = 1"
proof -
  let ?s1 = "(do_background_operations st)\<lparr>status := r2\<rparr>"
  have i: "slot_inv st" using assms by (rule reachable_slot_inv)
  then have s1: "slot_inv ?s1" by (simp add: slot_inv_def frame_do_background_operations)
  have none: "filter is_live (tasks (delete_outgoing ?s1)) = []"
    using delete_outgoing_none_live [OF s1] by (simp add: filter_empty_conv)
  have z: "live_tasks (delete_outgoing ?s1) = 0"
    by (simp add: live_tasks_def none)
  have o: "live_tasks (create_replacement s (delete_outgoing ?s1)) = 1"
    by (simp add: live_tasks_def frame_create_replacement none is_live_def)
  from slot_inv_live [OF i] z o show ?thesis by blast
qed

theorem at_most_one_live_mode_task_witness:
  "reachable example_flags (daemon_iteration example_flags 0 0 (daemon_bootstrap 0 2 1)) \<and>
   tasks (daemon_iteration example_flags 0 0 (daemon_bootstrap 0 2 1)) =
     [E_TASK_STATE_DELETED, E_TASK_STATE_READY] \<and>
   competition_task (daemon_iteration example_flags 0 0 (daemon_bootstrap 0 2 1)) = 1 \<and>
   live_tasks (daemon_iteration example_flags 0 0 (daemon_bootstrap 0 2 1)) \<le> 1 \<and>
   live_tasks (delete_outgoing
     ((do_background_operations (daemon_iteration example_flags 0 0 (daemon_bootstrap 0 2 1)))
        \<lparr>status := 1\<rparr>)) = 0 \<and>
   live_tasks (create_replacement E_DISABLED_TASK (delete_outgoing
     ((do_background_operations (daemon_iteration example_flags 0 0 (daemon_bootstrap 0 2 1)))
        \<lparr>status := 1\<rparr>))) = 1"
proof -
  have r: "reachable example_flags (daemon_iteration example_flags 0 0 (daemon_bootstrap 0 2 1))"
    by (intro reachable.pass reachable.boot)
  have b: "tasks (daemon_bootstrap 0 2 1) = [E_TASK_STATE_READY]"
    "competition_task (daemon_bootstrap 0 2 1) = 0" "status (daemon_bootstrap 0 2 1) = 256"
    by (simp_all add: daemon_bootstrap_def task_create_static_def do_background_operations_def)
  have n: "status (daemon_bootstrap 0 2 1) \<noteq> 0" unfolding b by simp
  have d: "\<not> ((0 :: 32 word) AND COMPETITION_DISABLED example_flags \<noteq> 0 \<and>
              status (daemon_bootstrap 0 2 1) AND COMPETITION_DISABLED example_flags \<noteq> 0)"
    unfolding b by simp
  have t: "tasks (daemon_iteration example_flags 0 0 (daemon_bootstrap 0 2 1)) =
             [E_TASK_STATE_DELETED, E_TASK_STATE_READY]"
    "competition_task (daemon_iteration example_flags 0 0 (daemon_bootstrap 0 2 1)) = 1"
    unfolding iteration_transition [OF n d]
    using b(1,2)
    by (simp_all add: frame_task_delay_until frame_create_replacement delete_outgoing_def
        task_get_state_def task_delete_def frame_do_background_operations)
  from at_most_one_live_mode_task [OF r, of 1 E_DISABLED_TASK] r t show ?thesis by simp
qed

subsection \<open>Entry-point resolution\<close>

lemma initialize_bound_by_rule:
  "user_initialize (setup_user_functions cold tbl) = resolved cold tbl ''initialize''"
  by (simp add: setup_user_functions_def resolved_def)

lemma direct_calls_ignore_table:
  "f \<noteq> Initialize_task \<Longrightarrow> task_body cold (setup_user_functions cold tbl) f = task_body cold g f"
  by (cases f) simp_all

lemma installed_table_slots:
  "hot_functions installed_table F =
     (if F \<in> set (user_functions_list example_image) then example_fn_addr F else 0)"
  by (simp add: installed_table_def invoke_install_hot_table_def HOT_TABLE_install
      example_image_def stale_state_def del: set_simps)

text \<open>
  Claim C5, at a failing input.  The table installed for the example image holds an
  override in every callback's slot, so the resolution rule names the hot image's
  address for each of the five.  \<open>setup_user_functions\<close> binds \<open>initialize\<close> by the rule,
  and the initialize task calls the override; the other four task functions call the
  cold image's own \<open>autonomous\<close>, \<open>opcontrol\<close>, \<open>disabled\<close> and
  \<open>competition_initialize\<close>, whatever the table holds.
\<close>

theorem autonomous_override_ignored:
  "hot_functions installed_table ''autonomous'' = 0x07801000 \<and>
   resolved example_cold installed_table ''autonomous'' = 0x07801000 \<and>
   task_body example_cold (setup_user_functions example_cold installed_table) Autonomous_task =
     [Call 0x03801000] \<and>
   resolved example_cold installed_table ''opcontrol'' = 0x07801080 \<and>
   task_body example_cold (setup_user_functions example_cold installed_table) Opcontrol_task =
     [Call 0x03801080] \<and>
   resolved example_cold installed_table ''disabled'' = 0x078010C0 \<and>
   task_body example_cold (setup_user_functions example_cold installed_table) Disabled_task =
     [Call 0x038010C0] \<and>
   resolved example_cold installed_table ''competition_initialize'' = 0x07801100 \<and>
   task_body example_cold (setup_user_functions example_cold installed_table)
     Competition_initialize_task = [Call 0x03801100] \<and>
   resolved example_cold installed_table ''initialize'' = 0x07801040 \<and>
   task_body example_cold (setup_user_functions example_cold installed_table) Initialize_task =
     [Call 0x07801040, Task_notify_system_daemon]"
  by (simp add: installed_table_slots resolved_def setup_user_functions_def example_image_def
      example_fn_addr_def example_cold_def)

subsection \<open>The inertial sensor while it calibrates\<close>

text \<open>
  Claim C10.  For each of the eight accessors: when the port claim succeeds, leaving the
  state \<open>st1\<close>, and the device's status word has the calibrating flag, the accessor
  returns its error value (\<open>PROS_ERR\<close>, \<open>PROS_ERR_F\<close>, a struct whose fields are all
  \<open>PROS_ERR_F\<close>, or \<open>E_IMU_STATUS_ERROR\<close>) in the state \<open>st1\<close> with \<open>errno\<close> set to
  \<open>EAGAIN\<close>, the port's mutex given back, and two calls added: the status read of the
  check and \<open>port_mutex_give\<close>.  The accessor's own vendor call is not among them.
\<close>

theorem calibrating_imu_returns_error:
  fixes env :: "'f imu_env"
  defines "out \<equiv> \<lambda>port st1.
     st1\<lparr>errno := EAGAIN env,
         port_mutex := (port_mutex st1)(uint port - 1 := False),
         vdml_calls := vdml_calls st1 @
           [VexDeviceImuStatusGet (uint port - 1), Port_mutex_give (uint port - 1)]\<rparr>"
  assumes "imu_status_word env (uint port - 1) AND E_IMU_STATUS_CALIBRATING env \<noteq> 0"
  shows "(claim_port_i env (uint port - 1) st = (True, st1) \<longrightarrow>
            imu_reset env port st = (PROS_ERR env, out port st1)) \<and>
         (claim_port_f env (uint port - 1) st = (True, st1) \<longrightarrow>
            imu_get_heading env port st = (PROS_ERR_F env, out port st1) \<and>
            imu_get_degrees env port st = (PROS_ERR_F env, out port st1)) \<and>
         (claim_port_try env (uint port - 1) st = (True, st1) \<longrightarrow>
            imu_get_quaternion env port st =
              (\<lparr>q_a = PROS_ERR_F env, q_b = PROS_ERR_F env, q_c = PROS_ERR_F env,
                q_d = PROS_ERR_F env\<rparr>, out port st1) \<and>
            imu_get_attitude env port st =
              (\<lparr>pitch = PROS_ERR_F env, roll = PROS_ERR_F env, yaw = PROS_ERR_F env\<rparr>,
               out port st1) \<and>
            imu_get_raw_gyro env port st =
              (\<lparr>raw_x = PROS_ERR_F env, raw_y = PROS_ERR_F env, raw_z = PROS_ERR_F env,
                raw_w = PROS_ERR_F env\<rparr>, out port st1) \<and>
            imu_get_raw_accel env port st =
              (\<lparr>raw_x = PROS_ERR_F env, raw_y = PROS_ERR_F env, raw_z = PROS_ERR_F env,
                raw_w = PROS_ERR_F env\<rparr>, out port st1) \<and>
            imu_get_status env port st = (E_IMU_STATUS_ERROR env, out port st1))"
proof -
  have e: "ERROR_IMU_STILL_CALIBRATING env port (uint port - 1) r st1 = Inl (r, out port st1)" for r :: 'a
    using assms(2)
    by (simp add: ERROR_IMU_STILL_CALIBRATING_def return_port_def vex_def out_def)
  show ?thesis
    by (simp add: imu_reset_def imu_get_heading_def imu_get_degrees_def imu_get_quaternion_def
        imu_get_attitude_def imu_get_raw_gyro_def imu_get_raw_accel_def imu_get_status_def e
        QUATERNION_ERR_INIT_def ATTITUDE_ERR_INIT_def RAW_IMU_ERR_INIT_def)
qed

theorem calibrating_imu_returns_error_witness:
  "imu_status_word example_env (uint (1 :: 8 word) - 1) AND E_IMU_STATUS_CALIBRATING example_env \<noteq> 0 \<and>
   fst (claim_port_i example_env (uint (1 :: 8 word) - 1) idle_vdml) \<and>
   fst (claim_port_f example_env (uint (1 :: 8 word) - 1) idle_vdml) \<and>
   fst (claim_port_try example_env (uint (1 :: 8 word) - 1) idle_vdml) \<and>
   fst (imu_reset example_env 1 idle_vdml) = 0x7FFFFFFF \<and>
   errno (snd (imu_reset example_env 1 idle_vdml)) = 11 \<and>
   \<not> port_mutex (snd (imu_reset example_env 1 idle_vdml)) 0 \<and>
   vdml_calls (snd (imu_reset example_env 1 idle_vdml)) =
     [VexDeviceImuStatusGet 0, Port_mutex_give 0] \<and>
   fst (imu_get_heading example_env 1 idle_vdml) = Infinity \<and>
   fst (imu_get_degrees example_env 1 idle_vdml) = Infinity \<and>
   fst (imu_get_quaternion example_env 1 idle_vdml) =
     \<lparr>q_a = Infinity, q_b = Infinity, q_c = Infinity, q_d = Infinity\<rparr> \<and>
   fst (imu_get_attitude example_env 1 idle_vdml) =
     \<lparr>pitch = Infinity, roll = Infinity, yaw = Infinity\<rparr> \<and>
   fst (imu_get_raw_gyro example_env 1 idle_vdml) =
     \<lparr>raw_x = Infinity, raw_y = Infinity, raw_z = Infinity, raw_w = Infinity\<rparr> \<and>
   fst (imu_get_raw_accel example_env 1 idle_vdml) =
     \<lparr>raw_x = Infinity, raw_y = Infinity, raw_z = Infinity, raw_w = Infinity\<rparr> \<and>
   fst (imu_get_status example_env 1 idle_vdml) = 0xFF \<and>
   errno (snd (imu_get_status example_env 1 idle_vdml)) = 11 \<and>
   vdml_calls (snd (imu_get_status example_env 1 idle_vdml)) =
     [VexDeviceImuStatusGet 0, Port_mutex_give 0]"
proof -
  let ?st1 = "idle_vdml\<lparr>port_mutex := (port_mutex idle_vdml)(0 := True)\<rparr>"
  have h: "imu_status_word example_env (uint (1 :: 8 word) - 1) AND
             E_IMU_STATUS_CALIBRATING example_env \<noteq> 0"
    by (simp add: example_env_def)
  have c: "claim_port_i example_env (uint (1 :: 8 word) - 1) idle_vdml = (True, ?st1)"
    "claim_port_f example_env (uint (1 :: 8 word) - 1) idle_vdml = (True, ?st1)"
    "claim_port_try example_env (uint (1 :: 8 word) - 1) idle_vdml = (True, ?st1)"
    by (simp_all add: example_env_def example_claim_def)
  have k: "EAGAIN example_env = 11" "PROS_ERR example_env = 0x7FFFFFFF"
    "PROS_ERR_F example_env = Infinity" "E_IMU_STATUS_ERROR example_env = 0xFF"
    by (simp_all add: example_env_def)
  note t = calibrating_imu_returns_error [OF h, of idle_vdml ?st1]
  from t c have r: "imu_reset example_env 1 idle_vdml =
      (PROS_ERR example_env,
       ?st1\<lparr>errno := EAGAIN example_env,
         port_mutex := (port_mutex ?st1)(uint (1 :: 8 word) - 1 := False),
         vdml_calls := vdml_calls ?st1 @
           [VexDeviceImuStatusGet (uint (1 :: 8 word) - 1), Port_mutex_give (uint (1 :: 8 word) - 1)]\<rparr>)"
    by blast
  from t c have s: "imu_get_status example_env 1 idle_vdml =
      (E_IMU_STATUS_ERROR example_env,
       ?st1\<lparr>errno := EAGAIN example_env,
         port_mutex := (port_mutex ?st1)(uint (1 :: 8 word) - 1 := False),
         vdml_calls := vdml_calls ?st1 @
           [VexDeviceImuStatusGet (uint (1 :: 8 word) - 1), Port_mutex_give (uint (1 :: 8 word) - 1)]\<rparr>)"
    by blast
  from t c have f: "fst (imu_get_heading example_env 1 idle_vdml) = PROS_ERR_F example_env"
    "fst (imu_get_degrees example_env 1 idle_vdml) = PROS_ERR_F example_env"
    "fst (imu_get_quaternion example_env 1 idle_vdml) =
       \<lparr>q_a = PROS_ERR_F example_env, q_b = PROS_ERR_F example_env, q_c = PROS_ERR_F example_env,
                q_d = PROS_ERR_F example_env\<rparr>"
    "fst (imu_get_attitude example_env 1 idle_vdml) =
       \<lparr>pitch = PROS_ERR_F example_env, roll = PROS_ERR_F example_env, yaw = PROS_ERR_F example_env\<rparr>"
    "fst (imu_get_raw_gyro example_env 1 idle_vdml) =
       \<lparr>raw_x = PROS_ERR_F example_env, raw_y = PROS_ERR_F example_env, raw_z = PROS_ERR_F example_env,
                raw_w = PROS_ERR_F example_env\<rparr>"
    "fst (imu_get_raw_accel example_env 1 idle_vdml) =
       \<lparr>raw_x = PROS_ERR_F example_env, raw_y = PROS_ERR_F example_env, raw_z = PROS_ERR_F example_env,
                raw_w = PROS_ERR_F example_env\<rparr>"
    by simp_all
  show ?thesis
    unfolding r s f k c using h by (simp add: idle_vdml_def)
qed

text \<open>
  For contrast, \<open>imu_get_status\<close> on a sensor that is not calibrating reads the
  status twice: once in the check and once for the result, of which it returns the low
  byte.
\<close>

lemma imu_get_status_when_ready:
  assumes "claim_port_try env (uint port - 1) st = (True, st1)"
    and "imu_status_word env (uint port - 1) AND E_IMU_STATUS_CALIBRATING env = 0"
  shows "imu_get_status env port st =
     (ucast (imu_status_word env (uint port - 1)),
      st1\<lparr>port_mutex := (port_mutex st1)(uint port - 1 := False),
          vdml_calls := vdml_calls st1 @
            [VexDeviceImuStatusGet (uint port - 1), VexDeviceImuStatusGet (uint port - 1),
             Port_mutex_give (uint port - 1)]\<rparr>)"
  using assms
  by (simp add: imu_get_status_def ERROR_IMU_STILL_CALIBRATING_def return_port_def vex_def Let_def)

end
